theory Spec2Isabelle
  imports Main
begin

section \<open>The review-comment script \<open>.github/ai_Complete.py\<close>\<close>

text \<open>
  The script reads two report files, posts each one as a prompt to a text-generation
  endpoint, and writes the two answers into \<open>.github/ai_comment.md\<close>. It has one
  function, \<open>get_ai_suggestion\<close>, and a block of top-level statements.

  Everything the script touches outside itself is a field of the record \<open>world\<close>:
  the files it can read, the paths it can open for writing, the requests sent so far
  and the way the server answers. Every operation takes the world and returns the new
  one, together with either the exception it raised (\<open>Inl\<close>) or its value
  (\<open>Inr\<close>).
\<close>

subsection \<open>Python values and exceptions\<close>

text \<open>
  A Python \<open>str\<close> is a sequence of code points, lone surrogates (\<open>0xD800\<close> to
  \<open>0xDFFF\<close>) included: \<open>resp.json()\<close> returns one for the valid JSON string
  \<open>"\ud83d"\<close>. \<open>ascii\<close> writes an ASCII literal as such a sequence. Paths and
  URLs are only compared and stay HOL strings.
\<close>

type_synonym pystr = "nat list"

definition ascii :: "string \<Rightarrow> pystr" where
  "ascii s = map of_char s"

text \<open>
  The values \<open>resp.json()\<close> can return, which are also the values of the request
  payload: \<open>None\<close>, a \<open>bool\<close>, an \<open>int\<close>, a \<open>float\<close> (kept as the literal
  of the body: the script never computes with it), a \<open>str\<close>, a \<open>list\<close> and a
  \<open>dict\<close> with string keys (an association list without repeated keys, in insertion
  order).
\<close>

datatype pyval =
    PNone
  | PBool bool
  | PInt int
  | PFloat string
  | PStr pystr
  | PList "pyval list"
  | PDict "(pystr \<times> pyval) list"

text \<open>
  The exceptions that can leave the script. \<open>OSError\<close> stands for any failure of
  \<open>open\<close> (file not found, permission denied, a directory), \<open>RequestException\<close>
  for any failure of \<open>requests.post\<close> to obtain a complete response, but for
  \<open>TooManyRedirects\<close>, which is kept apart.
\<close>

datatype py_error =
    IndexError
  | OSError
  | UnicodeDecodeError
  | RequestException
  | TooManyRedirects
  | JSONDecodeError
  | AttributeError
  | TypeError
  | UnicodeEncodeError

subsection \<open>The world\<close>

text \<open>
  A file that \<open>open\<close> accepts either decodes, and then \<open>Text\<close> holds its
  content, character by character as it is on disk, or does not decode. The encoding is
  the locale's, taken to be UTF-8 as in the spec; lines are ended as on POSIX, so a
  write stores its text unchanged.
\<close>

datatype disk_file = Text pystr | Undecodable

datatype http_method = GET | POST

record request =
  req_method :: http_method
  req_url :: string
  req_json :: "pyval option"

text \<open>
  A response has a status code, the URL its \<open>Location\<close> header resolves to when it
  has one, and a body. \<open>json_body\<close> is what \<open>resp.json()\<close> makes of the body:
  \<open>None\<close> when the body is not valid JSON.
\<close>

record response =
  status_code :: nat
  location :: "string option"
  json_body :: "pyval option"

datatype post_outcome = Raises | Responds response

text \<open>
  \<open>files\<close> maps a path to the file \<open>open(path, "r")\<close> finds there;
  \<open>writable path\<close> tells whether \<open>open(path, "w")\<close> succeeds;
  \<open>sent\<close> lists the requests sent so far, answered or not, oldest first;
  \<open>server\<close> gives the outcome of a request from the requests sent before it and the
  request itself, so a server may answer the same request differently each time.
  Storage never runs out: a write of an encodable text to an opened file succeeds.
\<close>

record world =
  files :: "string \<rightharpoonup> disk_file"
  writable :: "string \<Rightarrow> bool"
  sent :: "request list"
  server :: "request list \<Rightarrow> request \<Rightarrow> post_outcome"

subsection \<open>The library calls the script makes\<close>

definition open_r :: "string \<Rightarrow> world \<Rightarrow> py_error + disk_file" where
  "open_r path w = (case files w path of None \<Rightarrow> Inl OSError | Some f \<Rightarrow> Inr f)"

text \<open>
  The file is opened in text mode with the default \<open>newline=None\<close>: on reading,
  every CR LF pair and every CR on its own becomes LF.
\<close>

fun universal_newlines :: "pystr \<Rightarrow> pystr" where
  "universal_newlines [] = []"
| "universal_newlines [c] = (if c = 13 then [10] else [c])"
| "universal_newlines (c # d # cs) =
     (if c = 13 \<and> d = 10 then 10 # universal_newlines cs
      else if c = 13 then 10 # universal_newlines (d # cs)
      else c # universal_newlines (d # cs))"

definition f_read :: "disk_file \<Rightarrow> py_error + pystr" where
  "f_read f =
     (case f of Text s \<Rightarrow> Inr (universal_newlines s) | Undecodable \<Rightarrow> Inl UnicodeDecodeError)"

text \<open>
  \<open>requests.post(api_url, json=payload)\<close> sends a POST with the payload as its
  body and follows redirects. A response is a redirect when its status code is 301,
  302, 303, 307 or 308 and it has a non-empty \<open>Location\<close>. The next request goes to
  that URL; it is a GET without a body after 302 and 303, and after 301 when the
  request was a POST, and it keeps the method and the body after 307 and 308. At most
  \<open>max_redirects\<close> redirects are followed; one more raises \<open>TooManyRedirects\<close>.
  The response that ends the chain is returned, whatever its status code.
\<close>

definition redirect_target :: "response \<Rightarrow> string option" where
  "redirect_target resp =
     (if status_code resp \<in> {301, 302, 303, 307, 308} then
        (case location resp of
           None \<Rightarrow> None
         | Some u \<Rightarrow> if u = [] then None else Some u)
      else None)"

definition redirect_request :: "request \<Rightarrow> response \<Rightarrow> string \<Rightarrow> request" where
  "redirect_request q resp u =
     \<lparr>req_method =
        (if status_code resp = 303 \<or> status_code resp = 302 then GET
         else if status_code resp = 301 \<and> req_method q = POST then GET
         else req_method q),
      req_url = u,
      req_json =
        (if status_code resp = 307 \<or> status_code resp = 308 then req_json q else None)\<rparr>"

fun send_following :: "nat \<Rightarrow> request \<Rightarrow> world \<Rightarrow> (py_error + response) \<times> world" where
  "send_following 0 q w =
     (case server w (sent w) q of
        Raises \<Rightarrow> (Inl RequestException, w\<lparr>sent := sent w @ [q]\<rparr>)
      | Responds resp \<Rightarrow>
          (case redirect_target resp of
             None \<Rightarrow> (Inr resp, w\<lparr>sent := sent w @ [q]\<rparr>)
           | Some u \<Rightarrow> (Inl TooManyRedirects, w\<lparr>sent := sent w @ [q]\<rparr>)))"
| "send_following (Suc n) q w =
     (case server w (sent w) q of
        Raises \<Rightarrow> (Inl RequestException, w\<lparr>sent := sent w @ [q]\<rparr>)
      | Responds resp \<Rightarrow>
          (case redirect_target resp of
             None \<Rightarrow> (Inr resp, w\<lparr>sent := sent w @ [q]\<rparr>)
           | Some u \<Rightarrow> send_following n (redirect_request q resp u) (w\<lparr>sent := sent w @ [q]\<rparr>)))"

definition max_redirects :: nat where
  "max_redirects = 30"

definition requests_post :: "string \<Rightarrow> pyval \<Rightarrow> world \<Rightarrow> (py_error + response) \<times> world" where
  "requests_post api_url payload w =
     send_following max_redirects
       \<lparr>req_method = POST, req_url = api_url, req_json = Some payload\<rparr> w"

definition resp_json :: "response \<Rightarrow> py_error + pyval" where
  "resp_json resp = (case json_body resp of None \<Rightarrow> Inl JSONDecodeError | Some v \<Rightarrow> Inr v)"

text \<open>
  \<open>v.get(key, default)\<close>: only a \<open>dict\<close> has the method \<open>get\<close>.
\<close>

definition dict_get :: "pyval \<Rightarrow> pystr \<Rightarrow> pyval \<Rightarrow> py_error + pyval" where
  "dict_get v key dflt =
     (case v of
        PDict kvs \<Rightarrow> Inr (case map_of kvs key of None \<Rightarrow> dflt | Some x \<Rightarrow> x)
      | _ \<Rightarrow> Inl AttributeError)"

text \<open>
  \<open>v + "..."\<close> with a string literal on the right: defined for a \<open>str\<close> on the
  left, a \<open>TypeError\<close> for every other value a response can hold.
\<close>

definition add_str :: "pyval \<Rightarrow> pystr \<Rightarrow> py_error + pyval" where
  "add_str v s = (case v of PStr a \<Rightarrow> Inr (PStr (a @ s)) | _ \<Rightarrow> Inl TypeError)"

text \<open>
  \<open>open(path, "w")\<close> creates the file or empties it.
\<close>

definition open_w :: "string \<Rightarrow> world \<Rightarrow> (py_error + unit) \<times> world" where
  "open_w path w =
     (if writable w path then (Inr (), w\<lparr>files := (files w)(path \<mapsto> Text [])\<rparr>)
      else (Inl OSError, w))"

definition written :: "world \<Rightarrow> string \<Rightarrow> pystr" where
  "written w path = (case files w path of Some (Text t) \<Rightarrow> t | _ \<Rightarrow> [])"

text \<open>A text has a UTF-8 encoding when it holds no surrogate.\<close>

definition utf8_encodable :: "pystr \<Rightarrow> bool" where
  "utf8_encodable s = list_all (\<lambda>c. c < 0xD800 \<or> 0xDFFF < c) s"

text \<open>
  \<open>f.write(v)\<close> on the file opened at \<open>path\<close>: raises a \<open>TypeError\<close> for
  anything but a \<open>str\<close>, encodes the whole \<open>str\<close> and raises a
  \<open>UnicodeEncodeError\<close> when it cannot, and appends it otherwise. The \<open>with\<close>
  statement closes the file when an exception leaves its body, so what was written
  before stays in the file.
\<close>

definition f_write :: "string \<Rightarrow> pyval \<Rightarrow> world \<Rightarrow> (py_error + unit) \<times> world" where
  "f_write path v w =
     (case v of
        PStr s \<Rightarrow>
          if utf8_encodable s
          then (Inr (), w\<lparr>files := (files w)(path \<mapsto> Text (written w path @ s))\<rparr>)
          else (Inl UnicodeEncodeError, w)
      | _ \<Rightarrow> (Inl TypeError, w))"

text \<open>
  \<open>sys.argv[i]\<close>; the list includes the script's name at index 0.
\<close>

definition argv_get :: "string list \<Rightarrow> nat \<Rightarrow> py_error + string" where
  "argv_get argv i = (if i < length argv then Inr (argv ! i) else Inl IndexError)"

subsection \<open>The string literals of the script\<close>

definition newline :: pystr where
  "newline = [10]"

text \<open>The instruction that opens every prompt, up to its full-width colon.\<close>

definition prompt_prefix :: pystr where
  "prompt_prefix =
     [0x8BF7, 0x8865, 0x5168, 0x5E76, 0x4F18, 0x5316, 0x5982, 0x4E0B, 0x4EE3,
      0x7801, 0x95EE, 0x9898, 0xFF1A]"

definition default_api_url :: string where
  "default_api_url = ''http://localhost:8000/generate''"

definition out_path :: string where
  "out_path = ''.github/ai_comment.md''"

text \<open>The heading, the first string written.\<close>

definition title_line :: pystr where
  "title_line =
     ascii ''### AI'' @
     [0x4EE3, 0x7801, 0x5BA1, 0x6838, 0x4E0E, 0x8865, 0x5168, 0x5EFA, 0x8BAE] @
     newline"

text \<open>The label of the lint section, the second string written.\<close>

definition lint_label :: pystr where
  "lint_label =
     ascii ''**Lint'' @
     [0x5206, 0x6790, 0x5EFA, 0x8BAE, 0xFF1A] @
     ascii ''**'' @ newline"

text \<open>The label of the format section, the fourth string written.\<close>

definition format_label :: pystr where
  "format_label =
     ascii ''**'' @
     [0x683C, 0x5F0F, 0x5316, 0x5206, 0x6790, 0x4E0E, 0x8865, 0x5168, 0xFF1A] @
     ascii ''**'' @ newline"

subsection \<open>\<open>get_ai_suggestion\<close>\<close>

text \<open>The dictionary \<open>payload\<close> built from the text read.\<close>

definition payload_of :: "pystr \<Rightarrow> pyval" where
  "payload_of content =
     PDict [(ascii ''prompt'', PStr (prompt_prefix @ newline @ content)),
            (ascii ''max_tokens'', PInt 256)]"

definition get_ai_suggestion :: "string \<Rightarrow> string \<Rightarrow> world \<Rightarrow> (py_error + pyval) \<times> world" where
  "get_ai_suggestion report_file api_url w =
     (case open_r report_file w of
        Inl e \<Rightarrow> (Inl e, w)
      | Inr f \<Rightarrow>
          (case f_read f of
             Inl e \<Rightarrow> (Inl e, w)
           | Inr content \<Rightarrow>
               (case requests_post api_url (payload_of content) w of
                  (Inl e, w1) \<Rightarrow> (Inl e, w1)
                | (Inr resp, w1) \<Rightarrow>
                    (case resp_json resp of
                       Inl e \<Rightarrow> (Inl e, w1)
                     | Inr body \<Rightarrow>
                         (case dict_get body (ascii ''result'') (PStr []) of
                            Inl e \<Rightarrow> (Inl e, w1)
                          | Inr result \<Rightarrow> (Inr result, w1))))))"

subsection \<open>The top-level statements\<close>

text \<open>The \<open>with\<close> block: five writes to the file opened at \<open>out_path\<close>.\<close>

definition write_comment :: "pyval \<Rightarrow> pyval \<Rightarrow> world \<Rightarrow> (py_error + unit) \<times> world" where
  "write_comment lint_suggest format_suggest w =
     (case open_w out_path w of
        (Inl e, w0) \<Rightarrow> (Inl e, w0)
      | (Inr _, w0) \<Rightarrow>
          (case f_write out_path (PStr title_line) w0 of
             (Inl e, w1) \<Rightarrow> (Inl e, w1)
           | (Inr _, w1) \<Rightarrow>
               (case f_write out_path (PStr lint_label) w1 of
                  (Inl e, w2) \<Rightarrow> (Inl e, w2)
                | (Inr _, w2) \<Rightarrow>
                    (case add_str lint_suggest (newline @ newline) of
                       Inl e \<Rightarrow> (Inl e, w2)
                     | Inr s \<Rightarrow>
                         (case f_write out_path s w2 of
                            (Inl e, w3) \<Rightarrow> (Inl e, w3)
                          | (Inr _, w3) \<Rightarrow>
                              (case f_write out_path (PStr format_label) w3 of
                                 (Inl e, w4) \<Rightarrow> (Inl e, w4)
                               | (Inr _, w4) \<Rightarrow> f_write out_path format_suggest w4))))))"

text \<open>
  The whole run, from \<open>sys.argv\<close>. \<open>sys.argv[2]\<close> is read after the first call
  has returned.
\<close>

definition main :: "string list \<Rightarrow> world \<Rightarrow> (py_error + unit) \<times> world" where
  "main argv w =
     (case argv_get argv 1 of
        Inl e \<Rightarrow> (Inl e, w)
      | Inr a1 \<Rightarrow>
          (case get_ai_suggestion a1 default_api_url w of
             (Inl e, w1) \<Rightarrow> (Inl e, w1)
           | (Inr lint_suggest, w1) \<Rightarrow>
               (case argv_get argv 2 of
                  Inl e \<Rightarrow> (Inl e, w1)
                | Inr a2 \<Rightarrow>
                    (case get_ai_suggestion a2 default_api_url w1 of
                       (Inl e, w2) \<Rightarrow> (Inl e, w2)
                     | (Inr format_suggest, w2) \<Rightarrow>
                         write_comment lint_suggest format_suggest w2))))"

text \<open>
  The exit status of the interpreter: 1 when an exception was not caught, 0 otherwise.
\<close>

definition exit_code :: "py_error + unit \<Rightarrow> nat" where
  "exit_code r = (case r of Inl _ \<Rightarrow> 1 | Inr _ \<Rightarrow> 0)"

subsection \<open>A concrete run\<close>

text \<open>
  The scenario used to exercise the theorems: a lint report \<open>lint.txt\<close> holding
  \<open>def f(): pass\<close>, a format report \<open>format.txt\<close> holding \<open>x=1\<close>, an older
  comment file already on disk, and a server that answers each of the two prompts with
  a \<open>result\<close> and refuses every other request.
\<close>

definition lint_text :: pystr where
  "lint_text = ascii ''def f(): pass''"

definition format_text :: pystr where
  "format_text = ascii ''x=1''"

definition lint_advice :: pystr where
  "lint_advice = ascii ''Add a docstring.''"

definition format_advice :: pystr where
  "format_advice = ascii ''Add spaces around '='.''"

text \<open>A response with status 200 whose body is \<open>{"result": v}\<close>.\<close>

definition result_response :: "pyval \<Rightarrow> response" where
  "result_response v =
     \<lparr>status_code = 200, location = None, json_body = Some (PDict [(ascii ''result'', v)])\<rparr>"

definition demo_server :: "request list \<Rightarrow> request \<Rightarrow> post_outcome" where
  "demo_server h q =
     (if req_json q = Some (payload_of lint_text) then Responds (result_response (PStr lint_advice))
      else if req_json q = Some (payload_of format_text)
      then Responds (result_response (PStr format_advice))
      else Raises)"

text \<open>The same server, but with a chosen outcome for the prompt made from \<open>c\<close>.\<close>

definition answer_for :: "pystr \<Rightarrow> post_outcome \<Rightarrow> request list \<Rightarrow> request \<Rightarrow> post_outcome" where
  "answer_for c outcome h q =
     (if req_json q = Some (payload_of c) then outcome else demo_server h q)"

definition demo_world :: world where
  "demo_world =
     \<lparr>files = [''lint.txt'' \<mapsto> Text lint_text, ''format.txt'' \<mapsto> Text format_text,
               out_path \<mapsto> Text (ascii ''stale'')],
      writable = (\<lambda>p. p = out_path),
      sent = [],
      server = demo_server\<rparr>"

definition demo_argv :: "string list" where
  "demo_argv = [''ai_Complete.py'', ''lint.txt'', ''format.txt'']"

text \<open>Outcomes a server can be made to give in place of its usual answer.\<close>

definition error_response :: response where
  "error_response =
     \<lparr>status_code = 500, location = None,
      json_body = Some (PDict [(ascii ''detail'', PStr (ascii ''Internal Server Error''))])\<rparr>"

definition error_status_world :: world where
  "error_status_world = demo_world\<lparr>server := answer_for lint_text (Responds error_response)\<rparr>"

definition bad_gateway :: response where
  "bad_gateway = \<lparr>status_code = 502, location = None, json_body = None\<rparr>"

definition garbled :: response where
  "garbled = \<lparr>status_code = 200, location = None, json_body = None\<rparr>"

definition empty_object :: response where
  "empty_object = \<lparr>status_code = 200, location = None, json_body = Some (PDict [])\<rparr>"

text \<open>The string \<open>"\ud83d"\<close>: one surrogate on its own.\<close>

definition lone_surrogate :: pystr where
  "lone_surrogate = [0xD83D]"

definition surrogate_world :: world where
  "surrogate_world =
     demo_world\<lparr>server := answer_for lint_text (Responds (result_response (PStr lone_surrogate)))\<rparr>"

text \<open>A report file whose two lines end in CR LF: \<open>a\<close>, CR, LF, \<open>b\<close>, CR, LF.\<close>

definition crlf_text :: pystr where
  "crlf_text = [97, 13, 10, 98, 13, 10]"

definition crlf_world :: world where
  "crlf_world =
     demo_world\<lparr>files := [''crlf.txt'' \<mapsto> Text crlf_text],
       server := answer_for (universal_newlines crlf_text)
                   (Responds (result_response (PStr lint_advice)))\<rparr>"

text \<open>
  A server that redirects every request to the endpoint, with the status code \<open>st\<close>,
  to another URL, where it answers with the lint advice.
\<close>

definition moved_url :: string where
  "moved_url = ''http://localhost:8000/v2/generate''"

definition redirecting_server :: "nat \<Rightarrow> request list \<Rightarrow> request \<Rightarrow> post_outcome" where
  "redirecting_server st h q =
     (if req_url q = default_api_url
      then Responds \<lparr>status_code = st, location = Some moved_url, json_body = None\<rparr>
      else Responds (result_response (PStr lint_advice)))"

section \<open>Properties\<close>

subsection \<open>Texts\<close>

lemma ascii_no_surrogate:
  "list_all (\<lambda>c. c < 0xD800 \<or> 0xDFFF < c) (ascii s)"
proof -
  have "c < 0xD800" if "c \<in> set (ascii s)" for c
  proof -
    from that obtain x where c: "c = of_char x" by (auto simp add: ascii_def)
    have "(of_char x :: nat) < 256" by simp
    then have "(of_char x :: nat) < 0xD800" by linarith
    with c show ?thesis by blast
  qed
  then show ?thesis by (auto simp add: list_all_iff)
qed

lemma utf8_encodable_ascii:
  "utf8_encodable (ascii s)"
  by (simp add: utf8_encodable_def ascii_no_surrogate)

lemma utf8_encodable_append:
  "utf8_encodable (s @ t) = (utf8_encodable s \<and> utf8_encodable t)"
  by (simp add: utf8_encodable_def)

lemma utf8_encodable_literals:
  "utf8_encodable []"
  "utf8_encodable newline"
  "utf8_encodable title_line"
  "utf8_encodable lint_label"
  "utf8_encodable format_label"
  by (simp_all add: utf8_encodable_def title_line_def lint_label_def format_label_def
      newline_def ascii_no_surrogate)

text \<open>A text without CR is read as it is.\<close>

lemma universal_newlines_no_cr:
  "13 \<notin> set s \<Longrightarrow> universal_newlines s = s"
  by (induction s rule: universal_newlines.induct) auto

subsection \<open>How the operations unfold\<close>

text \<open>With both positional arguments present, the run is the two calls and the block.\<close>

lemma main_three_args:
  "main (script # a # b # extra) w =
     (case get_ai_suggestion a default_api_url w of
        (Inl e, w1) \<Rightarrow> (Inl e, w1)
      | (Inr lint_suggest, w1) \<Rightarrow>
          (case get_ai_suggestion b default_api_url w1 of
             (Inl e, w2) \<Rightarrow> (Inl e, w2)
           | (Inr format_suggest, w2) \<Rightarrow> write_comment lint_suggest format_suggest w2))"
  by (simp add: main_def argv_get_def split: prod.splits sum.splits)

lemma main_short:
  "length argv < 2 \<Longrightarrow> main argv w = (Inl IndexError, w)"
  by (simp add: main_def argv_get_def)

lemma main_one_arg:
  "main [script, a] w =
     (case fst (get_ai_suggestion a default_api_url w) of
        Inl e \<Rightarrow> Inl e
      | Inr lint_suggest \<Rightarrow> Inl IndexError,
      snd (get_ai_suggestion a default_api_url w))"
  by (simp add: main_def argv_get_def split: prod.splits sum.splits)

lemma argv_shapes:
  obtains (short) "length argv < 2"
    | (one) script a where "argv = [script, a]"
    | (both) script a b extra where "argv = script # a # b # extra"
proof (cases argv)
  case Nil
  then show ?thesis using short by simp
next
  case (Cons script as)
  show ?thesis
  proof (cases as)
    case Nil
    with Cons show ?thesis using short by simp
  next
    case (Cons a bs)
    with \<open>argv = script # as\<close> show ?thesis
      using one both by (cases bs) simp_all
  qed
qed

text \<open>An exception in either call is the outcome of the run.\<close>

lemma main_aborts_first:
  "fst (get_ai_suggestion a default_api_url w) = Inl e \<Longrightarrow>
   main (script # a # b # extra) w = (Inl e, snd (get_ai_suggestion a default_api_url w))"
  by (auto simp add: main_three_args split: prod.splits sum.splits)

lemma main_aborts_second:
  "fst (get_ai_suggestion a default_api_url w) = Inr v \<Longrightarrow>
   fst (get_ai_suggestion b default_api_url (snd (get_ai_suggestion a default_api_url w))) = Inl e \<Longrightarrow>
   main (script # a # b # extra) w =
     (Inl e, snd (get_ai_suggestion b default_api_url (snd (get_ai_suggestion a default_api_url w))))"
  by (auto simp add: main_three_args split: prod.splits sum.splits)

lemma main_writes_after_fetches:
  "fst (get_ai_suggestion a default_api_url w) = Inr l \<Longrightarrow>
   fst (get_ai_suggestion b default_api_url (snd (get_ai_suggestion a default_api_url w))) = Inr f \<Longrightarrow>
   main (script # a # b # extra) w =
     write_comment l f
       (snd (get_ai_suggestion b default_api_url (snd (get_ai_suggestion a default_api_url w))))"
  by (auto simp add: main_three_args split: prod.splits sum.splits)

lemma fetch_failure_aborts_run:
  assumes "fst (get_ai_suggestion p default_api_url w) = Inl e"
  shows "fst (main (script # p # b # extra) w) = Inl e"
    and "get_ai_suggestion a default_api_url w0 = (Inr l, w) \<Longrightarrow>
         fst (main (script # a # p # extra) w0) = Inl e"
  using assms by (simp_all add: main_aborts_first main_aborts_second)

subsection \<open>Sending a request\<close>

text \<open>One step of \<open>send_following\<close>, for any number of redirects left.\<close>

lemma send_following_unfold:
  "send_following n q w =
     (case server w (sent w) q of
        Raises \<Rightarrow> (Inl RequestException, w\<lparr>sent := sent w @ [q]\<rparr>)
      | Responds resp \<Rightarrow>
          (case redirect_target resp of
             None \<Rightarrow> (Inr resp, w\<lparr>sent := sent w @ [q]\<rparr>)
           | Some u \<Rightarrow>
               if n = 0 then (Inl TooManyRedirects, w\<lparr>sent := sent w @ [q]\<rparr>)
               else send_following (n - 1) (redirect_request q resp u) (w\<lparr>sent := sent w @ [q]\<rparr>)))"
  by (cases n) (simp_all split: post_outcome.splits option.splits)

text \<open>Sending changes nothing of the world but the list of requests.\<close>

lemma send_following_keeps_disk:
  "files (snd (send_following n q w)) = files w \<and>
   writable (snd (send_following n q w)) = writable w \<and>
   server (snd (send_following n q w)) = server w"
  by (induction n arbitrary: q w) (simp_all split: post_outcome.splits option.splits)

text \<open>
  The requests of one call: the first is the one given, and each one after it carries
  either no body or the body of the first.
\<close>

lemma send_following_sent:
  "\<exists>rest. sent (snd (send_following n q w)) = sent w @ q # rest \<and>
          (\<forall>x \<in> set rest. req_json x = None \<or> req_json x = req_json q)"
proof (induction n arbitrary: q w)
  case 0
  show ?case by (simp split: post_outcome.splits option.splits)
next
  case (Suc n)
  show ?case
  proof (cases "server w (sent w) q")
    case Raises
    then show ?thesis by simp
  next
    case (Responds resp)
    show ?thesis
    proof (cases "redirect_target resp")
      case None
      with Responds show ?thesis by simp
    next
      case (Some u)
      let ?q' = "redirect_request q resp u"
      from Suc.IH [of ?q' "w\<lparr>sent := sent w @ [q]\<rparr>"]
      obtain rest where rest:
        "sent (snd (send_following n ?q' (w\<lparr>sent := sent w @ [q]\<rparr>))) = (sent w @ [q]) @ ?q' # rest"
        "\<forall>x \<in> set rest. req_json x = None \<or> req_json x = req_json ?q'"
        by auto
      have "req_json ?q' = None \<or> req_json ?q' = req_json q"
        by (simp add: redirect_request_def)
      with rest have "\<forall>x \<in> set (?q' # rest). req_json x = None \<or> req_json x = req_json q"
        by auto
      with rest(1) Responds Some show ?thesis
        by (intro exI [of _ "?q' # rest"]) simp
    qed
  qed
qed

text \<open>
  Two worlds whose servers answer alike from now on give the same outcome of a call,
  and the same requests are added to both.
\<close>

lemma send_following_agree:
  assumes "\<forall>h x. server w' (sent w' @ h) x = server w (sent w @ h) x"
  shows "fst (send_following n q w') = fst (send_following n q w) \<and>
         (\<exists>k. sent (snd (send_following n q w')) = sent w' @ k \<and>
              sent (snd (send_following n q w)) = sent w @ k)"
  using assms
proof (induction n arbitrary: q w w')
  case 0
  from "0.prems" [rule_format, of "[]" q] show ?case
    by (simp split: post_outcome.splits option.splits)
next
  case (Suc n)
  have same: "server w' (sent w') q = server w (sent w) q"
    using Suc.prems [rule_format, of "[]" q] by simp
  show ?case
  proof (cases "server w (sent w) q")
    case Raises
    with same show ?thesis by simp
  next
    case (Responds resp)
    show ?thesis
    proof (cases "redirect_target resp")
      case None
      with Responds same show ?thesis by simp
    next
      case (Some u)
      let ?q' = "redirect_request q resp u"
      let ?v = "w\<lparr>sent := sent w @ [q]\<rparr>"
      let ?v' = "w'\<lparr>sent := sent w' @ [q]\<rparr>"
      have "\<forall>h x. server ?v' (sent ?v' @ h) x = server ?v (sent ?v @ h) x"
        using Suc.prems [rule_format, of "q # _"] by simp
      from Suc.IH [OF this, of ?q']
      obtain k where "fst (send_following n ?q' ?v') = fst (send_following n ?q' ?v)"
        and "sent (snd (send_following n ?q' ?v')) = sent w' @ q # k"
        and "sent (snd (send_following n ?q' ?v)) = sent w @ q # k"
        by auto
      with Responds Some same show ?thesis by simp
    qed
  qed
qed

subsection \<open>A call of \<open>get_ai_suggestion\<close>\<close>

lemma fetch_unreadable:
  "files w p = None \<Longrightarrow> get_ai_suggestion p u w = (Inl OSError, w)"
  by (simp add: get_ai_suggestion_def open_r_def)

lemma fetch_undecodable:
  "files w p = Some Undecodable \<Longrightarrow> get_ai_suggestion p u w = (Inl UnicodeDecodeError, w)"
  by (simp add: get_ai_suggestion_def open_r_def f_read_def)

text \<open>
  Once the file is read, the outcome is decided by what \<open>requests.post\<close> returns.
\<close>

lemma fetch_readable:
  "files w p = Some (Text c) \<Longrightarrow>
   get_ai_suggestion p u w =
     (case requests_post u (payload_of (universal_newlines c)) w of
        (Inl e, w1) \<Rightarrow> (Inl e, w1)
      | (Inr resp, w1) \<Rightarrow>
          (case json_body resp of
             None \<Rightarrow> Inl JSONDecodeError
           | Some (PDict kvs) \<Rightarrow>
               Inr (case map_of kvs (ascii ''result'') of None \<Rightarrow> PStr [] | Some v \<Rightarrow> v)
           | Some _ \<Rightarrow> Inl AttributeError,
           w1))"
  by (simp add: get_ai_suggestion_def open_r_def f_read_def resp_json_def dict_get_def
      split: prod.splits sum.splits option.splits pyval.splits)

text \<open>A call changes nothing of the world but the list of requests.\<close>

lemma fetch_keeps_disk:
  "files (snd (get_ai_suggestion p u w)) = files w"
  "writable (snd (get_ai_suggestion p u w)) = writable w"
  "server (snd (get_ai_suggestion p u w)) = server w"
proof -
  have "files (snd (get_ai_suggestion p u w)) = files w \<and>
        writable (snd (get_ai_suggestion p u w)) = writable w \<and>
        server (snd (get_ai_suggestion p u w)) = server w"
  proof (cases "files w p")
    case None
    then show ?thesis by (simp add: fetch_unreadable)
  next
    case (Some f)
    show ?thesis
    proof (cases f)
      case Undecodable
      with Some show ?thesis by (simp add: fetch_undecodable)
    next
      case (Text c)
      with Some
        send_following_keeps_disk [of max_redirects
          "\<lparr>req_method = POST, req_url = u, req_json = Some (payload_of (universal_newlines c))\<rparr>" w]
      show ?thesis
        by (auto simp add: fetch_readable requests_post_def split: prod.splits sum.splits)
    qed
  qed
  then show "files (snd (get_ai_suggestion p u w)) = files w"
    "writable (snd (get_ai_suggestion p u w)) = writable w"
    "server (snd (get_ai_suggestion p u w)) = server w"
    by simp_all
qed

lemma fetch_agree:
  assumes "files w' p = files w p"
    and "\<forall>h q. server w' (sent w' @ h) q = server w (sent w @ h) q"
  shows "fst (get_ai_suggestion p u w') = fst (get_ai_suggestion p u w) \<and>
         (\<exists>k. sent (snd (get_ai_suggestion p u w')) = sent w' @ k \<and>
              sent (snd (get_ai_suggestion p u w)) = sent w @ k)"
proof (cases "files w p")
  case None
  with assms(1) show ?thesis by (simp add: fetch_unreadable)
next
  case (Some f)
  show ?thesis
  proof (cases f)
    case Undecodable
    with Some assms(1) show ?thesis by (simp add: fetch_undecodable)
  next
    case (Text c)
    let ?q = "\<lparr>req_method = POST, req_url = u, req_json = Some (payload_of (universal_newlines c))\<rparr>"
    from send_following_agree [OF assms(2), of max_redirects ?q]
    obtain k where "fst (send_following max_redirects ?q w') = fst (send_following max_redirects ?q w)"
      and "sent (snd (send_following max_redirects ?q w')) = sent w' @ k"
      and "sent (snd (send_following max_redirects ?q w)) = sent w @ k"
      by auto
    with Some Text assms(1) show ?thesis
      by (auto simp add: fetch_readable requests_post_def split: prod.splits sum.splits)
  qed
qed

subsection \<open>The block that writes\<close>

lemma write_comment_strs:
  "writable w out_path \<Longrightarrow> utf8_encodable s1 \<Longrightarrow> utf8_encodable s2 \<Longrightarrow>
   write_comment (PStr s1) (PStr s2) w =
     (Inr (), w\<lparr>files := (files w)(out_path \<mapsto>
        Text (title_line @ lint_label @ s1 @ newline @ newline @ format_label @ s2))\<rparr>)"
  by (simp add: write_comment_def open_w_def f_write_def add_str_def written_def
      utf8_encodable_literals utf8_encodable_append)

text \<open>
  The block when the first value is not a text that can be written: it stops at the
  third write.
\<close>

lemma write_comment_stops_at_lint:
  assumes "writable w out_path"
    and "\<forall>s. l = PStr s \<longrightarrow> \<not> utf8_encodable s"
  shows "write_comment l f w =
           (Inl (case l of PStr s \<Rightarrow> UnicodeEncodeError | _ \<Rightarrow> TypeError),
            w\<lparr>files := (files w)(out_path \<mapsto> Text (title_line @ lint_label))\<rparr>)"
  using assms
  by (cases l)
    (simp_all add: write_comment_def open_w_def f_write_def add_str_def written_def
      utf8_encodable_literals utf8_encodable_append)

text \<open>The block when only the second value cannot be written: it stops at the fifth.\<close>

lemma write_comment_stops_at_format:
  assumes "writable w out_path" and "utf8_encodable s1"
    and "\<forall>s. f = PStr s \<longrightarrow> \<not> utf8_encodable s"
  shows "write_comment (PStr s1) f w =
           (Inl (case f of PStr s \<Rightarrow> UnicodeEncodeError | _ \<Rightarrow> TypeError),
            w\<lparr>files := (files w)(out_path \<mapsto>
               Text (title_line @ lint_label @ s1 @ newline @ newline @ format_label))\<rparr>)"
  using assms
  by (cases f)
    (simp_all add: write_comment_def open_w_def f_write_def add_str_def written_def
      utf8_encodable_literals utf8_encodable_append)

lemma write_comment_agree:
  assumes "writable w' out_path = writable w out_path"
  shows "fst (write_comment l f w') = fst (write_comment l f w) \<and>
         (if writable w out_path
          then files (snd (write_comment l f w')) out_path =
               files (snd (write_comment l f w)) out_path
          else files (snd (write_comment l f w')) = files w' \<and>
               files (snd (write_comment l f w)) = files w)"
  using assms
  by (cases l; cases f)
    (simp_all add: write_comment_def open_w_def f_write_def add_str_def written_def
      utf8_encodable_literals utf8_encodable_append)

subsection \<open>From the response to the suggestion\<close>

lemma requests_post_keeps_disk:
  assumes "requests_post u payload w = (x, w1)"
  shows "files w1 = files w" and "writable w1 = writable w" and "server w1 = server w"
  using assms
    send_following_keeps_disk [of max_redirects
      "\<lparr>req_method = POST, req_url = u, req_json = Some payload\<rparr>" w]
  by (simp_all add: requests_post_def)

lemma fetch_from_post:
  assumes "files w p = Some (Text c)"
    and "requests_post u (payload_of (universal_newlines c)) w = (Inr r, w1)"
  shows "get_ai_suggestion p u w =
           (case json_body r of
              None \<Rightarrow> Inl JSONDecodeError
            | Some (PDict kvs) \<Rightarrow>
                Inr (case map_of kvs (ascii ''result'') of None \<Rightarrow> PStr [] | Some v \<Rightarrow> v)
            | Some _ \<Rightarrow> Inl AttributeError,
            w1)"
  using assms by (simp add: fetch_readable)

text \<open>The facts that evaluate a call and a run in the concrete scenario.\<close>

lemmas demo_simps =
  fetch_readable requests_post_def send_following_unfold max_redirects_def
  demo_argv_def demo_world_def demo_server_def answer_for_def payload_of_def
  result_response_def redirect_target_def lint_text_def format_text_def
  lint_advice_def format_advice_def out_path_def ascii_def

text \<open>
  A redirect is followed: after 307 the POST is sent again with its body to the new
  URL, after 302 a GET without a body; the call returns what the last response holds.
\<close>

lemma redirect_is_followed:
  "get_ai_suggestion ''lint.txt'' default_api_url (demo_world\<lparr>server := redirecting_server 307\<rparr>) =
     (Inr (PStr lint_advice),
      demo_world\<lparr>server := redirecting_server 307,
        sent := [\<lparr>req_method = POST, req_url = default_api_url,
                  req_json = Some (payload_of lint_text)\<rparr>,
                 \<lparr>req_method = POST, req_url = moved_url,
                  req_json = Some (payload_of lint_text)\<rparr>]\<rparr>)"
  "get_ai_suggestion ''lint.txt'' default_api_url (demo_world\<lparr>server := redirecting_server 302\<rparr>) =
     (Inr (PStr lint_advice),
      demo_world\<lparr>server := redirecting_server 302,
        sent := [\<lparr>req_method = POST, req_url = default_api_url,
                  req_json = Some (payload_of lint_text)\<rparr>,
                 \<lparr>req_method = GET, req_url = moved_url, req_json = None\<rparr>]\<rparr>)"
  by (simp_all add: demo_simps redirecting_server_def redirect_request_def moved_url_def
      default_api_url_def)

subsection \<open>The comment file of a successful run\<close>

text \<open>
  Claim C1 as the spec states it fails: a \<open>result\<close> can be a string that has no
  encoding. In \<open>surrogate_world\<close> the server answers the lint prompt with
  \<open>{"result": "\ud83d"}\<close>. Both calls return their strings, the third write raises
  \<open>UnicodeEncodeError\<close>, the exit status is 1, and the comment file is left with
  the title line and the lint label line only.
\<close>

theorem surrogate_result_not_written:
  "fst (get_ai_suggestion ''lint.txt'' default_api_url surrogate_world) = Inr (PStr lone_surrogate) \<and>
   fst (get_ai_suggestion ''format.txt'' default_api_url
         (snd (get_ai_suggestion ''lint.txt'' default_api_url surrogate_world))) =
     Inr (PStr format_advice) \<and>
   fst (main demo_argv surrogate_world) = Inl UnicodeEncodeError \<and>
   exit_code (fst (main demo_argv surrogate_world)) = 1 \<and>
   files (snd (main demo_argv surrogate_world)) out_path = Some (Text (title_line @ lint_label))"
proof -
  have f1: "get_ai_suggestion ''lint.txt'' default_api_url surrogate_world =
      (Inr (PStr lone_surrogate),
       surrogate_world\<lparr>sent :=
         [\<lparr>req_method = POST, req_url = default_api_url, req_json = Some (payload_of lint_text)\<rparr>]\<rparr>)"
    by (simp add: surrogate_world_def demo_simps)
  have f2: "get_ai_suggestion ''format.txt'' default_api_url
       (surrogate_world\<lparr>sent :=
         [\<lparr>req_method = POST, req_url = default_api_url, req_json = Some (payload_of lint_text)\<rparr>]\<rparr>) =
      (Inr (PStr format_advice),
       surrogate_world\<lparr>sent :=
         [\<lparr>req_method = POST, req_url = default_api_url, req_json = Some (payload_of lint_text)\<rparr>,
          \<lparr>req_method = POST, req_url = default_api_url, req_json = Some (payload_of format_text)\<rparr>]\<rparr>)"
    by (simp add: surrogate_world_def demo_simps)
  have "\<not> utf8_encodable lone_surrogate"
    by (simp add: utf8_encodable_def lone_surrogate_def)
  then have "\<forall>s. PStr lone_surrogate = PStr s \<longrightarrow> \<not> utf8_encodable s"
    by simp
  moreover have "writable surrogate_world out_path"
    by (simp add: surrogate_world_def demo_world_def)
  ultimately show ?thesis
    using f1 f2
    by (simp add: demo_argv_def main_three_args write_comment_stops_at_lint exit_code_def)
qed

text \<open>
  Claim C1, amended. Let the two report files be readable, let \<open>requests.post\<close>
  return for the prompt made from the first a response whose body is a JSON object with
  the string \<open>s1\<close> as \<open>result\<close> and for the prompt made from the second one with
  the string \<open>s2\<close>, let \<open>s1\<close> and \<open>s2\<close> have a UTF-8 encoding, and let the
  comment file be openable for writing. Then the run ends without an exception, with
  exit status 0, and the comment file holds exactly the title line, the lint label
  line, \<open>s1\<close>, two newlines, the format label line and \<open>s2\<close>, in this order and
  whatever the file held before; no other file changes.
\<close>

theorem main_writes_both_suggestions:
  assumes "files w a = Some (Text ca)" and "files w b = Some (Text cb)"
    and "requests_post default_api_url (payload_of (universal_newlines ca)) w = (Inr r1, w1)"
    and "json_body r1 = Some (PDict kv1)" and "map_of kv1 (ascii ''result'') = Some (PStr s1)"
    and "requests_post default_api_url (payload_of (universal_newlines cb)) w1 = (Inr r2, w2)"
    and "json_body r2 = Some (PDict kv2)" and "map_of kv2 (ascii ''result'') = Some (PStr s2)"
    and "utf8_encodable s1" and "utf8_encodable s2"
    and "writable w out_path"
  shows "fst (main (script # a # b # extra) w) = Inr () \<and>
         exit_code (fst (main (script # a # b # extra) w)) = 0 \<and>
         files (snd (main (script # a # b # extra) w)) =
           (files w)(out_path \<mapsto>
              Text (title_line @ lint_label @ s1 @ newline @ newline @ format_label @ s2))"
proof -
  have f1: "get_ai_suggestion a default_api_url w = (Inr (PStr s1), w1)"
    using assms(1,3,4,5) by (simp add: fetch_from_post)
  have disk1: "files w1 = files w" "writable w1 = writable w"
    using requests_post_keeps_disk [OF assms(3)] by simp_all
  have f2: "get_ai_suggestion b default_api_url w1 = (Inr (PStr s2), w2)"
    using assms(2,6,7,8) disk1 by (simp add: fetch_from_post)
  have disk2: "files w2 = files w" "writable w2 out_path"
    using requests_post_keeps_disk [OF assms(6)] disk1 assms(11) by simp_all
  from f1 f2 disk2 assms(9,10) show ?thesis
    by (simp add: main_three_args write_comment_strs exit_code_def)
qed

theorem main_writes_both_suggestions_witness:
  "fst (main demo_argv demo_world) = Inr () \<and>
   files (snd (main demo_argv demo_world)) out_path =
     Some (Text (title_line @ lint_label @ lint_advice @ newline @ newline @
                 format_label @ format_advice))"
  using main_writes_both_suggestions [of demo_world "''lint.txt''" lint_text
      "''format.txt''" format_text
      "result_response (PStr lint_advice)"
      "demo_world\<lparr>sent :=
         [\<lparr>req_method = POST, req_url = default_api_url, req_json = Some (payload_of lint_text)\<rparr>]\<rparr>"
      "[(ascii ''result'', PStr lint_advice)]" lint_advice
      "result_response (PStr format_advice)"
      "demo_world\<lparr>sent :=
         [\<lparr>req_method = POST, req_url = default_api_url, req_json = Some (payload_of lint_text)\<rparr>,
          \<lparr>req_method = POST, req_url = default_api_url, req_json = Some (payload_of format_text)\<rparr>]\<rparr>"
      "[(ascii ''result'', PStr format_advice)]" format_advice
      "''ai_Complete.py''" "[]"]
    utf8_encodable_ascii [of "''Add a docstring.''"]
    utf8_encodable_ascii [of "''Add spaces around '='.''"]
  by (simp add: lint_advice_def format_advice_def)
    (simp add: demo_simps)

subsection \<open>The request\<close>

text \<open>
  Claim C2 as the spec states it fails: the text in the prompt is what \<open>f.read()\<close>
  returns, not always what the file holds. The file \<open>crlf.txt\<close> holds \<open>a\<close>, CR,
  LF, \<open>b\<close>, CR, LF; the prompt sent ends with \<open>a\<close>, LF, \<open>b\<close>, LF.
\<close>

theorem crlf_not_sent_verbatim:
  "files crlf_world ''crlf.txt'' = Some (Text crlf_text) \<and>
   fst (get_ai_suggestion ''crlf.txt'' default_api_url crlf_world) = Inr (PStr lint_advice) \<and>
   sent (snd (get_ai_suggestion ''crlf.txt'' default_api_url crlf_world)) =
     [\<lparr>req_method = POST, req_url = default_api_url,
       req_json = Some (PDict [(ascii ''prompt'', PStr (prompt_prefix @ newline @ [97, 10, 98, 10])),
                               (ascii ''max_tokens'', PInt 256)])\<rparr>] \<and>
   prompt_prefix @ newline @ [97, 10, 98, 10] \<noteq> prompt_prefix @ newline @ crlf_text"
  by (simp add: crlf_world_def crlf_text_def demo_simps)

text \<open>
  Claim C2, amended. For every content \<open>c\<close> of a readable file, the empty one
  included, the call sends first a POST to the URL whose body is the dictionary with
  \<open>prompt\<close> the instruction, a newline and \<open>c\<close> as text mode reads it, that is
  with every CR LF and every other CR turned into LF, and with \<open>max_tokens\<close> 256;
  every further request of the call, sent when redirected, carries this body or none.
  When \<open>c\<close> holds no CR the text in the prompt is \<open>c\<close> unchanged.
\<close>

theorem get_ai_suggestion_posts_prompt:
  assumes "files w p = Some (Text c)"
  shows "(\<exists>rest.
            sent (snd (get_ai_suggestion p u w)) =
              sent w @
              \<lparr>req_method = POST, req_url = u,
                req_json = Some (PDict [(ascii ''prompt'',
                                          PStr (prompt_prefix @ newline @ universal_newlines c)),
                                        (ascii ''max_tokens'', PInt 256)])\<rparr> # rest \<and>
            (\<forall>q \<in> set rest.
               req_json q = None \<or>
               req_json q = Some (PDict [(ascii ''prompt'',
                                          PStr (prompt_prefix @ newline @ universal_newlines c)),
                                         (ascii ''max_tokens'', PInt 256)]))) \<and>
         (13 \<notin> set c \<longrightarrow> universal_newlines c = c)"
proof -
  let ?q = "\<lparr>req_method = POST, req_url = u, req_json = Some (payload_of (universal_newlines c))\<rparr>"
  have "snd (get_ai_suggestion p u w) = snd (send_following max_redirects ?q w)"
    using assms by (simp add: fetch_readable requests_post_def split: prod.splits sum.splits)
  with send_following_sent [of max_redirects ?q w] show ?thesis
    by (simp add: payload_of_def universal_newlines_no_cr)
qed

theorem get_ai_suggestion_posts_prompt_witness:
  "(\<exists>rest.
      sent (snd (get_ai_suggestion ''crlf.txt'' default_api_url crlf_world)) =
        \<lparr>req_method = POST, req_url = default_api_url,
          req_json = Some (PDict [(ascii ''prompt'', PStr (prompt_prefix @ newline @ [97, 10, 98, 10])),
                                  (ascii ''max_tokens'', PInt 256)])\<rparr> # rest) \<and>
   (\<exists>rest.
      sent (snd (get_ai_suggestion ''empty.txt'' default_api_url
                  (demo_world\<lparr>files := [''empty.txt'' \<mapsto> Text []]\<rparr>))) =
        \<lparr>req_method = POST, req_url = default_api_url,
          req_json = Some (PDict [(ascii ''prompt'', PStr (prompt_prefix @ newline)),
                                  (ascii ''max_tokens'', PInt 256)])\<rparr> # rest) \<and>
   universal_newlines lint_text = lint_text"
  using get_ai_suggestion_posts_prompt [of crlf_world "''crlf.txt''" crlf_text default_api_url]
    get_ai_suggestion_posts_prompt
      [of "demo_world\<lparr>files := [''empty.txt'' \<mapsto> Text []]\<rparr>" "''empty.txt''" "[]" default_api_url]
    get_ai_suggestion_posts_prompt [of demo_world "''lint.txt''" lint_text default_api_url]
  by (simp add: crlf_world_def crlf_text_def demo_world_def lint_text_def ascii_def) blast

subsection \<open>A call that raises\<close>

text \<open>
  Claim C3. If the first call raises, or the first returns and the second raises, then
  the run ends with that exception, no file is created or changed (the comment file
  included), and the exit status is not 0.
\<close>

theorem failed_fetch_writes_nothing:
  assumes "fst (get_ai_suggestion a default_api_url w) = Inl e \<or>
           (fst (get_ai_suggestion a default_api_url w) = Inr v \<and>
            fst (get_ai_suggestion b default_api_url (snd (get_ai_suggestion a default_api_url w))) = Inl e)"
  shows "fst (main (script # a # b # extra) w) = Inl e \<and>
         files (snd (main (script # a # b # extra) w)) = files w \<and>
         exit_code (fst (main (script # a # b # extra) w)) \<noteq> 0"
  using assms
proof
  assume "fst (get_ai_suggestion a default_api_url w) = Inl e"
  then show ?thesis
    by (simp add: main_aborts_first fetch_keeps_disk exit_code_def)
next
  assume "fst (get_ai_suggestion a default_api_url w) = Inr v \<and>
          fst (get_ai_suggestion b default_api_url (snd (get_ai_suggestion a default_api_url w))) = Inl e"
  then show ?thesis
    by (simp add: main_aborts_second fetch_keeps_disk exit_code_def)
qed

theorem failed_fetch_writes_nothing_witness:
  "fst (main demo_argv (demo_world\<lparr>server := answer_for lint_text Raises\<rparr>)) = Inl RequestException \<and>
   files (snd (main demo_argv (demo_world\<lparr>server := answer_for lint_text Raises\<rparr>))) out_path =
     Some (Text (ascii ''stale'')) \<and>
   exit_code (fst (main demo_argv (demo_world\<lparr>server := answer_for lint_text Raises\<rparr>))) = 1 \<and>
   fst (main demo_argv (demo_world\<lparr>server := answer_for format_text Raises\<rparr>)) = Inl RequestException \<and>
   files (snd (main demo_argv (demo_world\<lparr>server := answer_for format_text Raises\<rparr>))) out_path =
     Some (Text (ascii ''stale''))"
  using failed_fetch_writes_nothing
      [of "''lint.txt''" "demo_world\<lparr>server := answer_for lint_text Raises\<rparr>" RequestException
          PNone "''format.txt''" "''ai_Complete.py''" "[]"]
    failed_fetch_writes_nothing
      [of "''lint.txt''" "demo_world\<lparr>server := answer_for format_text Raises\<rparr>" RequestException
          "PStr lint_advice" "''format.txt''" "''ai_Complete.py''" "[]"]
  by (simp add: demo_simps exit_code_def)

subsection \<open>The status code\<close>

text \<open>
  Claim C4 as the spec states it, that every response with a status code outside 2xx
  makes the call raise, fails. In \<open>error_status_world\<close> the server answers the lint
  prompt with status 500 and the JSON body \<open>{"detail": "Internal Server Error"}\<close>:
  the call returns the empty string, and the run ends with exit status 0.
\<close>

theorem server_error_accepted:
  "server error_status_world (sent error_status_world)
     \<lparr>req_method = POST, req_url = default_api_url, req_json = Some (payload_of lint_text)\<rparr> =
     Responds error_response \<and>
   status_code error_response = 500 \<and>
   fst (get_ai_suggestion ''lint.txt'' default_api_url error_status_world) = Inr (PStr []) \<and>
   fst (main demo_argv error_status_world) = Inr () \<and>
   exit_code (fst (main demo_argv error_status_world)) = 0"
proof -
  have f1: "get_ai_suggestion ''lint.txt'' default_api_url error_status_world =
      (Inr (PStr []),
       error_status_world\<lparr>sent :=
         [\<lparr>req_method = POST, req_url = default_api_url, req_json = Some (payload_of lint_text)\<rparr>]\<rparr>)"
    by (simp add: error_status_world_def error_response_def demo_simps)
  have f2: "get_ai_suggestion ''format.txt'' default_api_url
       (error_status_world\<lparr>sent :=
         [\<lparr>req_method = POST, req_url = default_api_url, req_json = Some (payload_of lint_text)\<rparr>]\<rparr>) =
      (Inr (PStr format_advice),
       error_status_world\<lparr>sent :=
         [\<lparr>req_method = POST, req_url = default_api_url, req_json = Some (payload_of lint_text)\<rparr>,
          \<lparr>req_method = POST, req_url = default_api_url, req_json = Some (payload_of format_text)\<rparr>]\<rparr>)"
    by (simp add: error_status_world_def error_response_def demo_simps)
  have srv: "server error_status_world (sent error_status_world)
     \<lparr>req_method = POST, req_url = default_api_url, req_json = Some (payload_of lint_text)\<rparr> =
     Responds error_response"
    by (simp add: error_status_world_def answer_for_def)
  have "writable error_status_world out_path"
    by (simp add: error_status_world_def demo_world_def)
  moreover have "utf8_encodable format_advice"
    by (simp add: format_advice_def utf8_encodable_ascii)
  ultimately show ?thesis
    using f1 f2 srv
    by (simp add: demo_argv_def main_three_args write_comment_strs utf8_encodable_literals
        exit_code_def error_response_def)
qed

text \<open>
  Claim C4, amended. When the report file is readable and \<open>requests.post\<close> returns
  a response with a status code outside 2xx (a redirect it follows is not returned),
  the call raises exactly when the body of the response is not a JSON object; and when
  the body is not a JSON object the run, whichever of its two calls this is, ends with
  a non-zero exit status.
\<close>

theorem fetch_fatal_iff_body_not_object:
  assumes "files w p = Some (Text c)"
    and "requests_post default_api_url (payload_of (universal_newlines c)) w = (Inr r, w1)"
    and "status_code r < 200 \<or> 300 \<le> status_code r"
  shows "((\<exists>e. fst (get_ai_suggestion p default_api_url w) = Inl e) =
          (\<forall>kvs. json_body r \<noteq> Some (PDict kvs))) \<and>
         ((\<forall>kvs. json_body r \<noteq> Some (PDict kvs)) \<longrightarrow>
            exit_code (fst (main (script # p # b # extra) w)) \<noteq> 0) \<and>
         ((\<forall>kvs. json_body r \<noteq> Some (PDict kvs)) \<and>
          get_ai_suggestion a default_api_url w0 = (Inr l, w) \<longrightarrow>
            exit_code (fst (main (script # a # p # extra) w0)) \<noteq> 0)"
proof -
  have iff: "(\<exists>e. fst (get_ai_suggestion p default_api_url w) = Inl e) =
             (\<forall>kvs. json_body r \<noteq> Some (PDict kvs))"
    using assms(1,2) by (simp add: fetch_from_post split: option.splits pyval.splits)
  have run: "exit_code (fst (main (script # p # b # extra) w)) \<noteq> 0"
            "get_ai_suggestion a default_api_url w0 = (Inr l, w) \<Longrightarrow>
             exit_code (fst (main (script # a # p # extra) w0)) \<noteq> 0"
    if "\<forall>kvs. json_body r \<noteq> Some (PDict kvs)"
  proof -
    from that iff obtain e where "fst (get_ai_suggestion p default_api_url w) = Inl e"
      by blast
    then show "exit_code (fst (main (script # p # b # extra) w)) \<noteq> 0"
      "get_ai_suggestion a default_api_url w0 = (Inr l, w) \<Longrightarrow>
       exit_code (fst (main (script # a # p # extra) w0)) \<noteq> 0"
      by (simp_all add: fetch_failure_aborts_run exit_code_def)
  qed
  from iff run show ?thesis by blast
qed

theorem fetch_fatal_iff_body_not_object_witness:
  "(\<exists>e. fst (get_ai_suggestion ''lint.txt'' default_api_url
           (demo_world\<lparr>server := answer_for lint_text (Responds bad_gateway)\<rparr>)) = Inl e) \<and>
   exit_code (fst (main demo_argv
     (demo_world\<lparr>server := answer_for lint_text (Responds bad_gateway)\<rparr>))) \<noteq> 0 \<and>
   exit_code (fst (main demo_argv
     (demo_world\<lparr>server := answer_for format_text (Responds bad_gateway)\<rparr>))) \<noteq> 0"
  using fetch_fatal_iff_body_not_object
      [of "demo_world\<lparr>server := answer_for lint_text (Responds bad_gateway)\<rparr>"
          "''lint.txt''" lint_text bad_gateway
          "snd (get_ai_suggestion ''lint.txt'' default_api_url
                 (demo_world\<lparr>server := answer_for lint_text (Responds bad_gateway)\<rparr>))"
          "''ai_Complete.py''" "''format.txt''" "[]"]
    fetch_fatal_iff_body_not_object
      [of "snd (get_ai_suggestion ''lint.txt'' default_api_url
                 (demo_world\<lparr>server := answer_for format_text (Responds bad_gateway)\<rparr>))"
          "''format.txt''" format_text bad_gateway
          "snd (get_ai_suggestion ''format.txt'' default_api_url
                 (snd (get_ai_suggestion ''lint.txt'' default_api_url
                   (demo_world\<lparr>server := answer_for format_text (Responds bad_gateway)\<rparr>))))"
          "''ai_Complete.py''" "''format.txt''" "[]" "''lint.txt''"
          "demo_world\<lparr>server := answer_for format_text (Responds bad_gateway)\<rparr>"
          "PStr lint_advice"]
  by (simp add: demo_simps bad_gateway_def)

subsection \<open>A response without \<open>result\<close>\<close>

text \<open>
  Claim C5. When the report file is readable and \<open>requests.post\<close> returns a
  response whose body is a JSON object that has no key \<open>result\<close>, the call returns
  the empty string and raises nothing. The comment file being openable for writing: if
  this is the first call of a run whose second call returns a string \<open>s2\<close>, the
  comment file holds the lint label line with nothing between it and the separator,
  then the format label line, then \<open>s2\<close> when it can be encoded (the run ends with
  \<open>UnicodeEncodeError\<close> when it cannot); if it is the second call of a run whose
  first call returned a string \<open>s1\<close> that can be encoded, the comment file ends with
  the format label line (when \<open>s1\<close> cannot be encoded the run ends with
  \<open>UnicodeEncodeError\<close> before that line is written).
\<close>

theorem missing_result_gives_empty_section:
  assumes "files w p = Some (Text c)"
    and "requests_post default_api_url (payload_of (universal_newlines c)) w = (Inr r, w1)"
    and "json_body r = Some (PDict kvs)" and "map_of kvs (ascii ''result'') = None"
    and "writable w out_path"
  shows "fst (get_ai_suggestion p default_api_url w) = Inr (PStr []) \<and>
         (fst (get_ai_suggestion b default_api_url (snd (get_ai_suggestion p default_api_url w))) =
            Inr (PStr s2) \<longrightarrow>
          fst (main (script # p # b # extra) w) =
            (if utf8_encodable s2 then Inr () else Inl UnicodeEncodeError) \<and>
          files (snd (main (script # p # b # extra) w)) out_path =
            Some (Text (title_line @ lint_label @ [] @ newline @ newline @ format_label @
                        (if utf8_encodable s2 then s2 else [])))) \<and>
         (get_ai_suggestion a default_api_url w0 = (Inr (PStr s1), w) \<longrightarrow>
          fst (main (script # a # p # extra) w0) =
            (if utf8_encodable s1 then Inr () else Inl UnicodeEncodeError) \<and>
          files (snd (main (script # a # p # extra) w0)) out_path =
            Some (Text (title_line @ lint_label @
                        (if utf8_encodable s1 then s1 @ newline @ newline @ format_label @ []
                         else []))))"
proof -
  have fetch: "get_ai_suggestion p default_api_url w = (Inr (PStr []), w1)"
    using assms(1-4) by (simp add: fetch_from_post)
  have wr1: "writable w1 out_path"
    using requests_post_keeps_disk(2) [OF assms(2)] assms(5) by simp
  have lint: "fst (main (script # p # b # extra) w) =
                (if utf8_encodable s2 then Inr () else Inl UnicodeEncodeError) \<and>
              files (snd (main (script # p # b # extra) w)) out_path =
                Some (Text (title_line @ lint_label @ [] @ newline @ newline @ format_label @
                            (if utf8_encodable s2 then s2 else [])))"
    if "fst (get_ai_suggestion b default_api_url (snd (get_ai_suggestion p default_api_url w))) =
          Inr (PStr s2)"
  proof -
    define w2 where "w2 = snd (get_ai_suggestion b default_api_url w1)"
    have w2: "get_ai_suggestion b default_api_url w1 = (Inr (PStr s2), w2)"
      using that fetch by (simp add: w2_def prod_eq_iff)
    have wr2: "writable w2 out_path"
      using fetch_keeps_disk(2) [of b default_api_url w1] w2 wr1 by simp
    show ?thesis
    proof (cases "utf8_encodable s2")
      case True
      with wr2 fetch w2 show ?thesis
        by (simp add: main_three_args write_comment_strs utf8_encodable_literals)
    next
      case False
      then have "\<forall>s. PStr s2 = PStr s \<longrightarrow> \<not> utf8_encodable s" by simp
      from write_comment_stops_at_format [OF wr2 utf8_encodable_literals(1) this] False fetch w2
      show ?thesis
        by (simp add: main_three_args)
    qed
  qed
  have fmt: "fst (main (script # a # p # extra) w0) =
               (if utf8_encodable s1 then Inr () else Inl UnicodeEncodeError) \<and>
             files (snd (main (script # a # p # extra) w0)) out_path =
               Some (Text (title_line @ lint_label @
                           (if utf8_encodable s1 then s1 @ newline @ newline @ format_label @ []
                            else [])))"
    if first: "get_ai_suggestion a default_api_url w0 = (Inr (PStr s1), w)"
  proof (cases "utf8_encodable s1")
    case True
    with first fetch wr1 show ?thesis
      by (simp add: main_three_args write_comment_strs utf8_encodable_literals)
  next
    case False
    then have "\<forall>s. PStr s1 = PStr s \<longrightarrow> \<not> utf8_encodable s" by simp
    from write_comment_stops_at_lint [OF wr1 this] False first fetch show ?thesis
      by (simp add: main_three_args)
  qed
  from fetch lint fmt show ?thesis by simp
qed

theorem missing_result_gives_empty_section_witness:
  "fst (get_ai_suggestion ''lint.txt'' default_api_url
         (demo_world\<lparr>server := answer_for lint_text (Responds empty_object)\<rparr>)) = Inr (PStr []) \<and>
   files (snd (main demo_argv
     (demo_world\<lparr>server := answer_for lint_text (Responds empty_object)\<rparr>))) out_path =
     Some (Text (title_line @ lint_label @ newline @ newline @ format_label @ format_advice)) \<and>
   files (snd (main demo_argv
     (demo_world\<lparr>server := answer_for format_text (Responds empty_object)\<rparr>))) out_path =
     Some (Text (title_line @ lint_label @ lint_advice @ newline @ newline @ format_label))"
  using missing_result_gives_empty_section
      [of "demo_world\<lparr>server := answer_for lint_text (Responds empty_object)\<rparr>"
          "''lint.txt''" lint_text empty_object
          "snd (get_ai_suggestion ''lint.txt'' default_api_url
                 (demo_world\<lparr>server := answer_for lint_text (Responds empty_object)\<rparr>))"
          "[]" "''format.txt''" format_advice "''ai_Complete.py''" "[]"]
    missing_result_gives_empty_section
      [of "snd (get_ai_suggestion ''lint.txt'' default_api_url
                 (demo_world\<lparr>server := answer_for format_text (Responds empty_object)\<rparr>))"
          "''format.txt''" format_text empty_object
          "snd (get_ai_suggestion ''format.txt'' default_api_url
                 (snd (get_ai_suggestion ''lint.txt'' default_api_url
                   (demo_world\<lparr>server := answer_for format_text (Responds empty_object)\<rparr>))))"
          "[]" "''format.txt''" "[]" "''ai_Complete.py''" "[]" "''lint.txt''"
          "demo_world\<lparr>server := answer_for format_text (Responds empty_object)\<rparr>" lint_advice]
    utf8_encodable_ascii [of "''Add a docstring.''"]
    utf8_encodable_ascii [of "''Add spaces around '='.''"]
  by (simp add: lint_advice_def format_advice_def)
    (simp add: demo_simps empty_object_def)

subsection \<open>A body that is not JSON\<close>

text \<open>
  Claim C6. When the report file is readable and \<open>requests.post\<close> returns a
  response whose body is not valid JSON, the call raises \<open>JSONDecodeError\<close> (it does
  not return the empty string), and the run, whichever of its two calls this is, ends
  with that exception and a non-zero exit status.
\<close>

theorem invalid_json_is_fatal:
  assumes "files w p = Some (Text c)"
    and "requests_post default_api_url (payload_of (universal_newlines c)) w = (Inr r, w1)"
    and "json_body r = None"
  shows "fst (get_ai_suggestion p default_api_url w) = Inl JSONDecodeError \<and>
         fst (main (script # p # b # extra) w) = Inl JSONDecodeError \<and>
         exit_code (fst (main (script # p # b # extra) w)) \<noteq> 0 \<and>
         (get_ai_suggestion a default_api_url w0 = (Inr l, w) \<longrightarrow>
            fst (main (script # a # p # extra) w0) = Inl JSONDecodeError \<and>
            exit_code (fst (main (script # a # p # extra) w0)) \<noteq> 0)"
proof -
  have "fst (get_ai_suggestion p default_api_url w) = Inl JSONDecodeError"
    using assms by (simp add: fetch_from_post)
  then show ?thesis
    by (simp add: fetch_failure_aborts_run exit_code_def)
qed

theorem invalid_json_is_fatal_witness:
  "fst (get_ai_suggestion ''lint.txt'' default_api_url
         (demo_world\<lparr>server := answer_for lint_text (Responds garbled)\<rparr>)) = Inl JSONDecodeError \<and>
   fst (main demo_argv (demo_world\<lparr>server := answer_for lint_text (Responds garbled)\<rparr>)) =
     Inl JSONDecodeError \<and>
   fst (main demo_argv (demo_world\<lparr>server := answer_for format_text (Responds garbled)\<rparr>)) =
     Inl JSONDecodeError"
  using invalid_json_is_fatal
      [of "demo_world\<lparr>server := answer_for lint_text (Responds garbled)\<rparr>"
          "''lint.txt''" lint_text garbled
          "snd (get_ai_suggestion ''lint.txt'' default_api_url
                 (demo_world\<lparr>server := answer_for lint_text (Responds garbled)\<rparr>))"
          "''ai_Complete.py''" "''format.txt''" "[]"]
    invalid_json_is_fatal
      [of "snd (get_ai_suggestion ''lint.txt'' default_api_url
                 (demo_world\<lparr>server := answer_for format_text (Responds garbled)\<rparr>))"
          "''format.txt''" format_text garbled
          "snd (get_ai_suggestion ''format.txt'' default_api_url
                 (snd (get_ai_suggestion ''lint.txt'' default_api_url
                   (demo_world\<lparr>server := answer_for format_text (Responds garbled)\<rparr>))))"
          "''ai_Complete.py''" "''format.txt''" "[]" "''lint.txt''"
          "demo_world\<lparr>server := answer_for format_text (Responds garbled)\<rparr>" "PStr lint_advice"]
  by (simp add: demo_simps garbled_def)

subsection \<open>A report file that cannot be read\<close>

text \<open>
  Claim C7. When the path holds no file that reads as text, the call raises
  (\<open>OSError\<close> from \<open>open\<close>, or \<open>UnicodeDecodeError\<close> from \<open>f.read()\<close>) and
  leaves the world as it was: no request has been sent.
\<close>

theorem unreadable_file_posts_nothing:
  assumes "\<forall>c. files w p \<noteq> Some (Text c)"
  shows "get_ai_suggestion p u w =
           (Inl (if files w p = None then OSError else UnicodeDecodeError), w) \<and>
         sent (snd (get_ai_suggestion p u w)) = sent w"
proof (cases "files w p")
  case None
  then show ?thesis by (simp add: fetch_unreadable)
next
  case (Some f)
  with assms have "f = Undecodable" by (cases f) simp_all
  with Some show ?thesis by (simp add: fetch_undecodable)
qed

theorem unreadable_file_posts_nothing_witness:
  "get_ai_suggestion ''missing.txt'' default_api_url demo_world = (Inl OSError, demo_world) \<and>
   sent (snd (get_ai_suggestion ''missing.txt'' default_api_url demo_world)) = [] \<and>
   fst (get_ai_suggestion ''binary.bin'' default_api_url
         (demo_world\<lparr>files := [''binary.bin'' \<mapsto> Undecodable]\<rparr>)) = Inl UnicodeDecodeError"
  using unreadable_file_posts_nothing [of demo_world "''missing.txt''" default_api_url]
    unreadable_file_posts_nothing
      [of "demo_world\<lparr>files := [''binary.bin'' \<mapsto> Undecodable]\<rparr>" "''binary.bin''" default_api_url]
  by (simp add: demo_world_def out_path_def)

subsection \<open>Running twice\<close>

text \<open>
  Claim C8. Let a run start in the world \<open>w\<close>, and a second run with the same
  arguments in a world \<open>w'\<close> where the report files named by the first two arguments
  read as in \<open>w\<close>, the server answers as it did from \<open>w\<close> on, the comment file can
  be opened for writing exactly if it could in \<open>w\<close>, and the comment file is the one
  the first run left. Then the second run ends as the first did and leaves the comment
  file with the same content: what the file held is overwritten, nothing is appended.
\<close>

theorem rerun_same_comment:
  assumes ins: "\<forall>p \<in> set (take 2 (drop 1 argv)). files w' p = files w p"
    and srv: "\<forall>h q. server w' (sent w' @ h) q = server w (sent w @ h) q"
    and wr: "writable w' out_path = writable w out_path"
    and out: "files w' out_path = files (snd (main argv w)) out_path"
  shows "fst (main argv w') = fst (main argv w) \<and>
         files (snd (main argv w')) out_path = files (snd (main argv w)) out_path"
proof (cases argv rule: argv_shapes)
  case short
  with out show ?thesis by (simp add: main_short)
next
  case (one script a)
  with ins have "files w' a = files w a" by simp
  then have "fst (get_ai_suggestion a default_api_url w') = fst (get_ai_suggestion a default_api_url w)"
    using fetch_agree [OF _ srv, of a] by simp
  with out one show ?thesis
    by (simp add: main_one_arg fetch_keeps_disk)
next
  case (both script a b extra)
  let ?r1 = "get_ai_suggestion a default_api_url w"
  let ?r1' = "get_ai_suggestion a default_api_url w'"
  let ?r2 = "get_ai_suggestion b default_api_url (snd ?r1)"
  let ?r2' = "get_ai_suggestion b default_api_url (snd ?r1')"
  from ins both have in1: "files w' a = files w a" and in2: "files w' b = files w b"
    by simp_all
  from fetch_agree [OF in1 srv, of default_api_url]
  obtain k where fst1: "fst ?r1' = fst ?r1"
    and k': "sent (snd ?r1') = sent w' @ k" and k: "sent (snd ?r1) = sent w @ k"
    by auto
  have files2: "files (snd ?r1') b = files (snd ?r1) b"
    using in2 by (simp add: fetch_keeps_disk)
  have srv2: "\<forall>h q. server (snd ?r1') (sent (snd ?r1') @ h) q =
                     server (snd ?r1) (sent (snd ?r1) @ h) q"
    using srv [rule_format, of "k @ _"] by (simp add: fetch_keeps_disk k k')
  have fst2: "fst ?r2' = fst ?r2"
    using fetch_agree [OF files2 srv2] by simp
  have wr2: "writable (snd ?r2') out_path = writable (snd ?r2) out_path"
    using wr by (simp add: fetch_keeps_disk)
  show ?thesis
  proof (cases "fst ?r1")
    case (Inl e)
    then have "main argv w = (Inl e, snd ?r1)" "main argv w' = (Inl e, snd ?r1')"
      using fst1 both by (simp_all add: main_aborts_first)
    with out show ?thesis by (simp add: fetch_keeps_disk)
  next
    case l: (Inr l)
    show ?thesis
    proof (cases "fst ?r2")
      case (Inl e)
      then have "main argv w = (Inl e, snd ?r2)" "main argv w' = (Inl e, snd ?r2')"
        using l fst1 fst2 both by (simp_all add: main_aborts_second)
      with out show ?thesis by (simp add: fetch_keeps_disk)
    next
      case (Inr f)
      have m: "main argv w = write_comment l f (snd ?r2)"
        using l Inr both by (simp add: main_writes_after_fetches)
      have m': "main argv w' = write_comment l f (snd ?r2')"
        using l Inr fst1 fst2 both by (simp add: main_writes_after_fetches)
      from write_comment_agree [OF wr2, of l f] out show ?thesis
        by (simp add: m m' fetch_keeps_disk split: if_splits)
    qed
  qed
qed

theorem rerun_same_comment_witness:
  "fst (main demo_argv (snd (main demo_argv demo_world))) = Inr () \<and>
   files (snd (main demo_argv (snd (main demo_argv demo_world)))) out_path =
     files (snd (main demo_argv demo_world)) out_path \<and>
   files (snd (main demo_argv demo_world)) out_path =
     Some (Text (title_line @ lint_label @ lint_advice @ newline @ newline @
                 format_label @ format_advice))"
proof -
  have f1: "get_ai_suggestion ''lint.txt'' default_api_url demo_world =
      (Inr (PStr lint_advice),
       demo_world\<lparr>sent :=
         [\<lparr>req_method = POST, req_url = default_api_url, req_json = Some (payload_of lint_text)\<rparr>]\<rparr>)"
    by (simp add: demo_simps)
  have f2: "get_ai_suggestion ''format.txt'' default_api_url
       (demo_world\<lparr>sent :=
         [\<lparr>req_method = POST, req_url = default_api_url, req_json = Some (payload_of lint_text)\<rparr>]\<rparr>) =
      (Inr (PStr format_advice),
       demo_world\<lparr>sent :=
         [\<lparr>req_method = POST, req_url = default_api_url, req_json = Some (payload_of lint_text)\<rparr>,
          \<lparr>req_method = POST, req_url = default_api_url, req_json = Some (payload_of format_text)\<rparr>]\<rparr>)"
    by (simp add: demo_simps)
  have enc: "utf8_encodable lint_advice" "utf8_encodable format_advice"
    by (simp_all add: lint_advice_def format_advice_def utf8_encodable_ascii)
  have wr: "writable demo_world out_path"
    by (simp add: demo_world_def)
  have run: "main demo_argv demo_world =
      (Inr (), demo_world
         \<lparr>sent :=
            [\<lparr>req_method = POST, req_url = default_api_url, req_json = Some (payload_of lint_text)\<rparr>,
             \<lparr>req_method = POST, req_url = default_api_url, req_json = Some (payload_of format_text)\<rparr>],
          files := (files demo_world)(out_path \<mapsto>
            Text (title_line @ lint_label @ lint_advice @ newline @ newline @
                  format_label @ format_advice))\<rparr>)"
    using f1 f2 enc wr by (simp add: demo_argv_def main_three_args write_comment_strs)
  show ?thesis
    using rerun_same_comment [of demo_argv "snd (main demo_argv demo_world)" demo_world]
    by (simp add: run) (simp add: demo_argv_def demo_world_def demo_server_def out_path_def)
qed

subsection \<open>Arguments after the second\<close>

text \<open>
  Claim C9. Two runs in the same world whose first two positional arguments agree do
  the same, whatever the script's name and whatever arguments follow the second, none
  included: further arguments are neither read nor rejected.
\<close>

theorem extra_arguments_ignored:
  "main (script # a # b # extra) w = main (script' # a # b # extra') w"
  by (simp add: main_three_args)

subsection \<open>A \<open>result\<close> that is not a string\<close>

text \<open>
  Claim C10. Let both report files be readable, let \<open>requests.post\<close> return for
  both prompts responses whose bodies are JSON objects with the \<open>result\<close> values
  \<open>v1\<close> and \<open>v2\<close>, at least one of them not a string, and let the comment file be
  openable for writing. Then both calls return these values and raise nothing, the run
  ends with an exception raised by a write and a non-zero exit status, and the comment
  file has been emptied and holds the title line and the lint label line, followed by
  \<open>v1\<close>, the separator and the format label line when \<open>v1\<close> is a string that can
  be encoded, and by nothing more otherwise. The exception is a \<open>TypeError\<close>, but
  for a string \<open>v1\<close> that cannot be encoded, where it is a
  \<open>UnicodeEncodeError\<close>.
\<close>

theorem non_string_result_leaves_partial_file:
  assumes "files w a = Some (Text ca)" and "files w b = Some (Text cb)"
    and "requests_post default_api_url (payload_of (universal_newlines ca)) w = (Inr r1, w1)"
    and "json_body r1 = Some (PDict kv1)" and "map_of kv1 (ascii ''result'') = Some v1"
    and "requests_post default_api_url (payload_of (universal_newlines cb)) w1 = (Inr r2, w2)"
    and "json_body r2 = Some (PDict kv2)" and "map_of kv2 (ascii ''result'') = Some v2"
    and "writable w out_path"
    and "(\<forall>s. v1 \<noteq> PStr s) \<or> (\<forall>s. v2 \<noteq> PStr s)"
  shows "fst (get_ai_suggestion a default_api_url w) = Inr v1 \<and>
         fst (get_ai_suggestion b default_api_url (snd (get_ai_suggestion a default_api_url w))) =
           Inr v2 \<and>
         fst (main (script # a # b # extra) w) =
           Inl (case v1 of
                  PStr s1 \<Rightarrow> if utf8_encodable s1 then TypeError else UnicodeEncodeError
                | _ \<Rightarrow> TypeError) \<and>
         exit_code (fst (main (script # a # b # extra) w)) \<noteq> 0 \<and>
         files (snd (main (script # a # b # extra) w)) =
           (files w)(out_path \<mapsto>
              Text (title_line @ lint_label @
                    (case v1 of
                       PStr s1 \<Rightarrow>
                         if utf8_encodable s1 then s1 @ newline @ newline @ format_label else []
                     | _ \<Rightarrow> [])))"
proof -
  have f1: "get_ai_suggestion a default_api_url w = (Inr v1, w1)"
    using assms(1,3,4,5) by (simp add: fetch_from_post)
  have disk1: "files w1 = files w" "writable w1 = writable w"
    using requests_post_keeps_disk [OF assms(3)] by simp_all
  have f2: "get_ai_suggestion b default_api_url w1 = (Inr v2, w2)"
    using assms(2,6,7,8) disk1 by (simp add: fetch_from_post)
  have disk2: "files w2 = files w" and wr2: "writable w2 out_path"
    using requests_post_keeps_disk [OF assms(6)] disk1 assms(9) by simp_all
  have m: "main (script # a # b # extra) w = write_comment v1 v2 w2"
    using f1 f2 by (simp add: main_three_args)
  show ?thesis
  proof (cases "\<exists>s. v1 = PStr s \<and> utf8_encodable s")
    case True
    then obtain s1 where v1: "v1 = PStr s1" and enc: "utf8_encodable s1" by blast
    with assms(10) have "\<forall>s. v2 \<noteq> PStr s" by simp
    then have v2: "\<forall>s. v2 = PStr s \<longrightarrow> \<not> utf8_encodable s"
      and v2': "(case v2 of PStr s \<Rightarrow> UnicodeEncodeError | _ \<Rightarrow> TypeError) = TypeError"
      by (simp_all split: pyval.splits)
    from write_comment_stops_at_format [OF wr2 enc v2] v2' f1 f2 m v1 enc disk2 show ?thesis
      by (simp add: exit_code_def)
  next
    case False
    then have l: "\<forall>s. v1 = PStr s \<longrightarrow> \<not> utf8_encodable s" by blast
    from write_comment_stops_at_lint [OF wr2 l, of v2] f1 f2 m disk2 False show ?thesis
      by (cases v1) (simp_all add: exit_code_def)
  qed
qed

theorem non_string_result_leaves_partial_file_witness:
  "fst (get_ai_suggestion ''lint.txt'' default_api_url
         (demo_world\<lparr>server := answer_for lint_text (Responds (result_response (PInt 42)))\<rparr>)) =
     Inr (PInt 42) \<and>
   fst (main demo_argv
         (demo_world\<lparr>server := answer_for lint_text (Responds (result_response (PInt 42)))\<rparr>)) =
     Inl TypeError \<and>
   files (snd (main demo_argv
           (demo_world\<lparr>server := answer_for lint_text (Responds (result_response (PInt 42)))\<rparr>)))
     out_path = Some (Text (title_line @ lint_label)) \<and>
   fst (main demo_argv
         (demo_world\<lparr>server := answer_for format_text (Responds (result_response (PInt 42)))\<rparr>)) =
     Inl TypeError \<and>
   files (snd (main demo_argv
           (demo_world\<lparr>server := answer_for format_text (Responds (result_response (PInt 42)))\<rparr>)))
     out_path =
     Some (Text (title_line @ lint_label @ lint_advice @ newline @ newline @ format_label))"
  using non_string_result_leaves_partial_file
      [of "demo_world\<lparr>server := answer_for lint_text (Responds (result_response (PInt 42)))\<rparr>"
          "''lint.txt''" lint_text "''format.txt''" format_text
          "result_response (PInt 42)"
          "demo_world\<lparr>server := answer_for lint_text (Responds (result_response (PInt 42))),
             sent := [\<lparr>req_method = POST, req_url = default_api_url,
                       req_json = Some (payload_of lint_text)\<rparr>]\<rparr>"
          "[(ascii ''result'', PInt 42)]" "PInt 42"
          "result_response (PStr format_advice)"
          "demo_world\<lparr>server := answer_for lint_text (Responds (result_response (PInt 42))),
             sent := [\<lparr>req_method = POST, req_url = default_api_url,
                       req_json = Some (payload_of lint_text)\<rparr>,
                      \<lparr>req_method = POST, req_url = default_api_url,
                       req_json = Some (payload_of format_text)\<rparr>]\<rparr>"
          "[(ascii ''result'', PStr format_advice)]" "PStr format_advice"
          "''ai_Complete.py''" "[]"]
    non_string_result_leaves_partial_file
      [of "demo_world\<lparr>server := answer_for format_text (Responds (result_response (PInt 42)))\<rparr>"
          "''lint.txt''" lint_text "''format.txt''" format_text
          "result_response (PStr lint_advice)"
          "demo_world\<lparr>server := answer_for format_text (Responds (result_response (PInt 42))),
             sent := [\<lparr>req_method = POST, req_url = default_api_url,
                       req_json = Some (payload_of lint_text)\<rparr>]\<rparr>"
          "[(ascii ''result'', PStr lint_advice)]" "PStr lint_advice"
          "result_response (PInt 42)"
          "demo_world\<lparr>server := answer_for format_text (Responds (result_response (PInt 42))),
             sent := [\<lparr>req_method = POST, req_url = default_api_url,
                       req_json = Some (payload_of lint_text)\<rparr>,
                      \<lparr>req_method = POST, req_url = default_api_url,
                       req_json = Some (payload_of format_text)\<rparr>]\<rparr>"
          "[(ascii ''result'', PInt 42)]" "PInt 42"
          "''ai_Complete.py''" "[]"]
    utf8_encodable_ascii [of "''Add a docstring.''"]
  by (simp add: lint_advice_def)
    (simp add: demo_simps)

end
